theory Spec2Isabelle
  imports Complex_Main
begin

section \<open>The auction model (server/models/Auction.js)\<close>

text \<open>
  Mongoose documents are records. An ObjectId is a natural number, a Date is its
  \<^verbatim>\<open>getTime()\<close> value (milliseconds, an integer), and a JavaScript Number that holds
  money is the real that the double holds (a finite one: the Numbers of documents and
  of requests are finite). Comparisons of doubles are exact; the arithmetic on them
  rounds, see below. A path of the schema that may be null or undefined is an option.
\<close>

type_synonym object_id = nat
type_synonym date = int

datatype auction_status = Pending | Upcoming | Active | Ended | Sold | Expired | Cancelled

datatype role = Buyer | Seller | Admin

record bid =
  user :: object_id
  amount :: real
  timestamp :: date

record auction =
  product :: object_id
  seller :: object_id
  startTime :: date
  endTime :: date
  startingBid :: real
  currentHighestBid :: real
  currentHighestBidder :: "object_id option"
  bids :: "bid list"
  status :: auction_status
  winner :: "object_id option"
  reservePrice :: "real option"
  buyNowPrice :: "real option"
  viewCount :: nat
  createdAt :: date
  updatedAt :: date

text \<open>
  \<^verbatim>\<open>x || 0\<close> on a Number path that may be undefined: undefined and 0 are falsy, every
  other number is itself.
\<close>

definition or_zero :: "real option \<Rightarrow> real" where
  "or_zero x = (case x of None \<Rightarrow> 0 | Some r \<Rightarrow> if r \<noteq> 0 then r else 0)"

text \<open>Truthiness of a Number path that may be undefined.\<close>

definition truthy :: "real option \<Rightarrow> bool" where
  "truthy x = (case x of None \<Rightarrow> False | Some r \<Rightarrow> r \<noteq> 0)"

subsection \<open>The arithmetic of Numbers\<close>

text \<open>
  The result of an arithmetic operation on doubles is the exact result rounded to the
  binary64 format: to the nearest double, a tie to the one with the even significand,
  and to an infinity when the rounded magnitude reaches \<open>2 ^ 1024\<close>. The unit of
  the last place of a magnitude \<open>y\<close> is \<open>2\<close> to the power
  \<open>max (\<lfloor>log\<^sub>2 y\<rfloor> - 52) (- 1074)\<close> (the second bound is that of the subnormal
  numbers). \<open>bitLength n\<close> is the number of binary digits of a positive integer.
\<close>

datatype number = Finite real | Infinity | NegInfinity

definition roundHalfEven :: "real \<Rightarrow> int" where
  "roundHalfEven x =
     (let f = \<lfloor>x\<rfloor>; d = x - of_int f
      in if d < 1 / 2 then f
         else if 1 / 2 < d then f + 1
         else if even f then f else f + 1)"

function bitLength :: "int \<Rightarrow> int" where
  "bitLength n = (if n \<le> 0 then 0 else 1 + bitLength (n div 2))"
  by pat_completeness auto
termination
  by (relation "measure nat") auto

declare bitLength.simps [simp del]

definition floorLog2 :: "real \<Rightarrow> int" where
  "floorLog2 y = (if 1 \<le> y then bitLength \<lfloor>y\<rfloor> - 1 else - bitLength (\<lceil>1 / y\<rceil> - 1))"

definition toDouble :: "real \<Rightarrow> number" where
  "toDouble x =
     (if x = 0 then Finite 0
      else
        let y = \<bar>x\<bar>;
            e = max (floorLog2 y - 52) (- 1074);
            r = of_int (roundHalfEven (y / 2 powi e)) * 2 powi e
        in if 2 ^ 1024 \<le> r then (if 0 < x then Infinity else NegInfinity)
           else Finite (if 0 < x then r else - r))"

text \<open>
  The product of two Numbers, the sum of a Number and a result, and \<^verbatim>\<open><\<close> between
  a Number and a result. The literal \<^verbatim>\<open>0.01\<close> is the double nearest to one hundredth.
\<close>

definition js_mul :: "real \<Rightarrow> real \<Rightarrow> number" where
  "js_mul x y = toDouble (x * y)"

definition js_add :: "real \<Rightarrow> number \<Rightarrow> number" where
  "js_add x n =
     (case n of Finite y \<Rightarrow> toDouble (x + y) | Infinity \<Rightarrow> Infinity
      | NegInfinity \<Rightarrow> NegInfinity)"

definition js_lt :: "real \<Rightarrow> number \<Rightarrow> bool" where
  "js_lt x n = (case n of Finite y \<Rightarrow> x < y | Infinity \<Rightarrow> True | NegInfinity \<Rightarrow> False)"

definition double_0_01 :: real where
  "double_0_01 = 5764607523034235 / 2 ^ 59"

text \<open>
  \<^verbatim>\<open>AuctionSchema.methods.updateAuctionStatus\<close>, with the reading of the clock
  (\<^verbatim>\<open>new Date()\<close>) as the argument \<open>now\<close>. The method has three guarded branches
  and no final else; the document is returned as it is when no guard holds.
\<close>

definition updateAuctionStatus :: "date \<Rightarrow> auction \<Rightarrow> auction" where
  "updateAuctionStatus now a =
     (if status a = Cancelled \<or> status a = Sold \<or> status a = Expired then a
      else if now < startTime a then a\<lparr>status := Upcoming\<rparr>
      else if now \<ge> startTime a \<and> now < endTime a then a\<lparr>status := Active\<rparr>
      else if now \<ge> endTime a then
        (if currentHighestBidder a \<noteq> None
            \<and> currentHighestBid a \<ge> or_zero (reservePrice a)
         then a\<lparr>status := Ended\<rparr>
         else a\<lparr>status := Expired\<rparr>)
      else a)"

text \<open>
  The \<^verbatim>\<open>pre('save')\<close> hook: it stamps \<^verbatim>\<open>updatedAt\<close> and lifts a highest bid that
  is below the starting bid while there are no bids. \<open>save\<close> is the document as it
  is stored.
\<close>

definition pre_save :: "date \<Rightarrow> auction \<Rightarrow> auction" where
  "pre_save now a =
     (let a1 = a\<lparr>updatedAt := now\<rparr>
      in if currentHighestBid a1 < startingBid a1 \<and> length (bids a1) = 0
         then a1\<lparr>currentHighestBid := startingBid a1\<rparr>
         else a1)"

definition save :: "date \<Rightarrow> auction \<Rightarrow> auction" where
  "save now a = pre_save now a"

text \<open>A run of status refreshes at the given clock readings, oldest first.\<close>

fun refresh_all :: "date list \<Rightarrow> auction \<Rightarrow> auction" where
  "refresh_all [] a = a"
| "refresh_all (t # ts) a = refresh_all ts (updateAuctionStatus t a)"

definition terminal :: "auction_status \<Rightarrow> bool" where
  "terminal s = (s = Cancelled \<or> s = Sold \<or> s = Expired)"


section \<open>The auction routes (server/routes/auctions.js)\<close>

text \<open>
  A response that is not a success is its HTTP status with the message that the handler
  sends; the arguments of a message are the values that the source prints into it.
\<close>

datatype reason =
    ValidationErrors
  | RoleNotFound
  | AccessDenied
  | ServerError
  | ProductNotFound
  | NotOwnProduct
  | AlreadyInAuction
  | OutOfStock
  | NotActive auction_status
  | OwnAuction
  | BidNotHigher real
  | BidBelowMinimum number
  | NotAuthorizedUpdate
  | ChangeAfterBids
  | ChangeActiveWithBids
  | NotAuthorizedCancel
  | CannotCancel auction_status
  | CancelActiveWithBids
  | NotAuthorizedProcess
  | NotEnded auction_status
  | NoWinner
  | ReserveNotMet real real

datatype error = Error (http_status: nat) (msg: reason)

text \<open>
  A request on a stored auction answers with an error or with the auction, and leaves
  a stored auction behind: the first component is the document as stored when the
  request is over, the second the response. The clock readings of one request are
  taken as one instant \<open>now\<close>, and the store does not fail.
\<close>

type_synonym outcome = "auction \<times> (error + auction)"

text \<open>
  \<^verbatim>\<open>authorizeRole\<close> (middleware/roleMiddleware.js, found in the sources at the end of
  server/server.js). Its argument is one role or an array of roles; the role of the
  requester is absent when \<^verbatim>\<open>req.user\<close> or \<^verbatim>\<open>req.user.role\<close> is. The result is
  the 403 response that the middleware sends, or None when it calls \<^verbatim>\<open>next()\<close>.
\<close>

datatype role_spec = Single role | Roles "role list"

definition authorizeRole :: "role_spec \<Rightarrow> role option \<Rightarrow> error option" where
  "authorizeRole roles userRole =
     (case userRole of
        None \<Rightarrow> Some (Error 403 RoleNotFound)
      | Some r \<Rightarrow>
          (let userRoles = (case roles of Roles rs \<Rightarrow> rs | Single x \<Rightarrow> [x])
           in if r \<notin> set userRoles then Some (Error 403 AccessDenied) else None))"

text \<open>\<^verbatim>\<open>updateAuctionStatusMiddleware\<close>: refresh the status and save.\<close>

definition updateAuctionStatusMiddleware :: "date \<Rightarrow> auction \<Rightarrow> auction" where
  "updateAuctionStatusMiddleware now a = save now (updateAuctionStatus now a)"

text \<open>
  \<^verbatim>\<open>POST api/auctions\<close>. The product lookup is a map, the auction collection a list.
  The body of the request carries the six fields that the handler reads; the role of
  the requester may be absent. Saving a new document runs the schema validators
  (\<^verbatim>\<open>startingBid\<close> has \<^verbatim>\<open>min: 0.01\<close>; the other bounds are those of the route) and
  the unique index on \<^verbatim>\<open>product\<close>; a failure there is caught and answered with 500.
\<close>

record product_doc =
  prod_seller :: object_id
  stock :: real

record auction_body =
  b_product :: object_id
  b_startTime :: date
  b_endTime :: date
  b_startingBid :: real
  b_reservePrice :: "real option"
  b_buyNowPrice :: "real option"

definition create_valid :: "auction_body \<Rightarrow> bool" where
  "create_valid b =
     (\<not> b_endTime b \<le> b_startTime b
      \<and> b_startingBid b > 0
      \<and> (case b_reservePrice b of None \<Rightarrow> True | Some r \<Rightarrow> r \<ge> 0)
      \<and> (case b_buyNowPrice b of None \<Rightarrow> True | Some p \<Rightarrow> p > 0))"

definition newAuction :: "product_doc \<Rightarrow> auction_body \<Rightarrow> date \<Rightarrow> auction" where
  "newAuction p b now =
     \<lparr> product = b_product b,
       seller = prod_seller p,
       startTime = b_startTime b,
       endTime = b_endTime b,
       startingBid = b_startingBid b,
       currentHighestBid = b_startingBid b,
       currentHighestBidder = None,
       bids = [],
       status = (if b_startTime b \<le> now then Active else Upcoming),
       winner = None,
       reservePrice = b_reservePrice b,
       buyNowPrice = b_buyNowPrice b,
       viewCount = 0,
       createdAt = now,
       updatedAt = now \<rparr>"

definition create ::
  "(object_id \<Rightarrow> product_doc option) \<Rightarrow> auction list \<Rightarrow> object_id \<Rightarrow> role option
     \<Rightarrow> auction_body \<Rightarrow> date \<Rightarrow> error + auction" where
  "create products auctions uid userRole b now =
     (case authorizeRole (Roles [Seller, Admin]) userRole of
        Some denied \<Rightarrow> Inl denied
      | None \<Rightarrow>
     (if \<not> create_valid b then Inl (Error 400 ValidationErrors)
      else
        (case products (b_product b) of
           None \<Rightarrow> Inl (Error 404 ProductNotFound)
         | Some p \<Rightarrow>
             (if userRole \<noteq> Some Admin \<and> prod_seller p \<noteq> uid
              then Inl (Error 403 NotOwnProduct)
              else
                (case find (\<lambda>x. product x = b_product b
                                 \<and> status x \<in> set [Upcoming, Active, Pending]) auctions of
                   Some existingAuction \<Rightarrow> Inl (Error 400 AlreadyInAuction)
                 | None \<Rightarrow>
                     (if stock p < 1 then Inl (Error 400 OutOfStock)
                      else
                        (let a = updateAuctionStatus now (newAuction p b now)
                         in if startingBid a < double_0_01 then Inl (Error 500 ServerError)
                            else
                              (case find (\<lambda>x. product x = product a) auctions of
                                 Some duplicate \<Rightarrow> Inl (Error 500 ServerError)
                               | None \<Rightarrow> Inr (save now a)))))))))"

text \<open>\<^verbatim>\<open>GET api/auctions/:id\<close>: refresh, count the view, save.\<close>

definition getAuction :: "auction \<Rightarrow> date \<Rightarrow> outcome" where
  "getAuction a now =
     (let a1 = updateAuctionStatusMiddleware now a;
          a2 = save now (a1\<lparr>viewCount := viewCount a1 + 1\<rparr>)
      in (a2, Inr a2))"

text \<open>
  \<^verbatim>\<open>POST api/auctions/:id/bids\<close>. The middleware refreshes and saves before the
  handler runs; the handler first answers the validation of \<^verbatim>\<open>amount\<close>
  (\<^verbatim>\<open>isFloat({ gt: 0 })\<close>), then makes its own checks in the order of the source.
  The minimum next bid is computed in doubles: the product is rounded, then the sum.
\<close>

definition placeBid :: "auction \<Rightarrow> object_id \<Rightarrow> real \<Rightarrow> date \<Rightarrow> outcome" where
  "placeBid a uid amt now =
     (let a1 = updateAuctionStatusMiddleware now a
      in if \<not> amt > 0 then (a1, Inl (Error 400 ValidationErrors))
         else if status a1 \<noteq> Active then (a1, Inl (Error 400 (NotActive (status a1))))
         else if seller a1 = uid then (a1, Inl (Error 403 OwnAuction))
         else
           let minNextBid = js_add (currentHighestBid a1) (js_mul (startingBid a1) double_0_01)
           in if amt \<le> currentHighestBid a1
              then (a1, Inl (Error 400 (BidNotHigher (currentHighestBid a1))))
              else if js_lt amt minNextBid \<and> length (bids a1) > 0
              then (a1, Inl (Error 400 (BidBelowMinimum minNextBid)))
              else
                let newBid = \<lparr> user = uid, amount = amt, timestamp = now \<rparr>;
                    a2 = a1\<lparr> bids := bids a1 @ [newBid],
                             currentHighestBid := amount newBid,
                             currentHighestBidder := Some (user newBid) \<rparr>;
                    timeLeft = endTime a2 - now;
                    a3 = (if timeLeft < 5 * 60 * 1000
                          then a2\<lparr>endTime := now + 5 * 60 * 1000\<rparr> else a2);
                    a4 = save now a3
                in (a4, Inr a4))"

text \<open>
  \<^verbatim>\<open>PUT api/auctions/:id\<close>. The body carries the fields that the handler reads; a
  date that is present is truthy, a number is truthy when it is not 0. This handler and
  the next read the role only to compare it with admin.
\<close>

record updates =
  u_startTime :: "date option"
  u_endTime :: "date option"
  u_startingBid :: "real option"
  u_product :: "object_id option"
  u_reservePrice :: "real option"
  u_buyNowPrice :: "real option"

definition update_valid :: "auction \<Rightarrow> updates \<Rightarrow> bool" where
  "update_valid a u =
     ((case u_endTime u of
         None \<Rightarrow> True
       | Some e \<Rightarrow>
           \<not> e \<le> (case u_startTime u of Some s \<Rightarrow> s | None \<Rightarrow> startTime a))
      \<and> (case u_reservePrice u of None \<Rightarrow> True | Some r \<Rightarrow> r \<ge> 0)
      \<and> (case u_buyNowPrice u of None \<Rightarrow> True | Some p \<Rightarrow> p > 0))"

definition updateFields :: "auction \<Rightarrow> updates \<Rightarrow> object_id \<Rightarrow> role \<Rightarrow> date \<Rightarrow> outcome" where
  "updateFields a u uid r now =
     (let a1 = updateAuctionStatusMiddleware now a
      in if \<not> update_valid a1 u then (a1, Inl (Error 400 ValidationErrors))
         else if seller a1 \<noteq> uid \<and> r \<noteq> Admin
         then (a1, Inl (Error 403 NotAuthorizedUpdate))
         else if length (bids a1) > 0
                 \<and> (truthy (u_startingBid u) \<or> u_product u \<noteq> None
                      \<or> truthy (u_reservePrice u))
         then (a1, Inl (Error 400 ChangeAfterBids))
         else if status a1 \<noteq> Upcoming
                 \<and> (u_startTime u \<noteq> None \<or> u_endTime u \<noteq> None
                      \<or> truthy (u_startingBid u))
                 \<and> length (bids a1) > 0
         then (a1, Inl (Error 400 ChangeActiveWithBids))
         else
           let a2 = (case u_startTime u of None \<Rightarrow> a1 | Some s \<Rightarrow> a1\<lparr>startTime := s\<rparr>);
               a3 = (case u_endTime u of None \<Rightarrow> a2 | Some e \<Rightarrow> a2\<lparr>endTime := e\<rparr>);
               a4 = (case u_reservePrice u of
                       None \<Rightarrow> a3 | Some x \<Rightarrow> a3\<lparr>reservePrice := Some x\<rparr>);
               a5 = (case u_buyNowPrice u of
                       None \<Rightarrow> a4 | Some x \<Rightarrow> a4\<lparr>buyNowPrice := Some x\<rparr>);
               a6 = save now (updateAuctionStatus now a5)
           in (a6, Inr a6))"

text \<open>\<^verbatim>\<open>DELETE api/auctions/:id\<close>.\<close>

definition cancel :: "auction \<Rightarrow> object_id \<Rightarrow> role \<Rightarrow> date \<Rightarrow> outcome" where
  "cancel a uid r now =
     (let a1 = updateAuctionStatusMiddleware now a
      in if seller a1 \<noteq> uid \<and> r \<noteq> Admin
         then (a1, Inl (Error 403 NotAuthorizedCancel))
         else if status a1 \<in> set [Ended, Sold, Expired]
         then (a1, Inl (Error 400 (CannotCancel (status a1))))
         else if status a1 = Active \<and> length (bids a1) > 0 \<and> r \<noteq> Admin
         then (a1, Inl (Error 400 CancelActiveWithBids))
         else let a2 = save now (a1\<lparr>status := Cancelled\<rparr>) in (a2, Inr a2))"

text \<open>
  \<^verbatim>\<open>POST api/auctions/:id/process-winner\<close>. \<open>processWinner\<close> is the handler on the
  auction that the middleware hands over; \<open>settle\<close> is the route: the role check,
  the middleware, the handler.
\<close>

definition processWinner :: "auction \<Rightarrow> object_id \<Rightarrow> role option \<Rightarrow> date \<Rightarrow> outcome" where
  "processWinner a1 uid userRole now =
     (if seller a1 \<noteq> uid \<and> userRole \<noteq> Some Admin
      then (a1, Inl (Error 403 NotAuthorizedProcess))
      else if status a1 \<noteq> Ended then (a1, Inl (Error 400 (NotEnded (status a1))))
      else if currentHighestBidder a1 = None then (a1, Inl (Error 400 NoWinner))
      else if truthy (reservePrice a1)
              \<and> currentHighestBid a1 < the (reservePrice a1)
      then (save now (a1\<lparr>status := Expired\<rparr>),
            Inl (Error 400 (ReserveNotMet (currentHighestBid a1) (the (reservePrice a1)))))
      else let a2 = save now (a1\<lparr>winner := currentHighestBidder a1, status := Sold\<rparr>)
           in (a2, Inr a2))"

definition settle :: "auction \<Rightarrow> object_id \<Rightarrow> role option \<Rightarrow> date \<Rightarrow> outcome" where
  "settle a uid userRole now =
     (case authorizeRole (Roles [Admin, Seller]) userRole of
        Some denied \<Rightarrow> (a, Inl denied)
      | None \<Rightarrow> processWinner (updateAuctionStatusMiddleware now a) uid userRole now)"

text \<open>
  \<^verbatim>\<open>AuctionSchema.statics.findActiveAndUpdateStatus\<close>: the query selects the auctions
  that are Upcoming or Active with the end time passed; the loop body refreshes each,
  writes the winner of one that has ended, and saves.
\<close>

definition sweepOne :: "date \<Rightarrow> auction \<Rightarrow> auction" where
  "sweepOne now a =
     (let a1 = updateAuctionStatus now a;
          a2 = (if status a1 = Ended \<and> currentHighestBidder a1 \<noteq> None
                then a1\<lparr>winner := currentHighestBidder a1\<rparr> else a1)
      in save now a2)"

definition findActiveAndUpdateStatus :: "date \<Rightarrow> auction list \<Rightarrow> auction list" where
  "findActiveAndUpdateStatus now auctions =
     map (\<lambda>a. if status a \<in> set [Upcoming, Active] \<and> endTime a \<le> now
               then sweepOne now a else a) auctions"

subsection \<open>Histories of one auction\<close>

text \<open>
  Every operation that writes a stored auction, as a request; \<open>handle\<close> gives the
  stored auction after the request, \<open>run\<close> after a history of requests, each with
  its clock reading.
\<close>

datatype request =
    View
  | GetBids
  | Bid object_id real
  | Update updates object_id role
  | Cancel object_id role
  | Settle object_id "role option"
  | Sweep

fun handle :: "date \<Rightarrow> request \<Rightarrow> auction \<Rightarrow> auction" where
  "handle now View a = fst (getAuction a now)"
| "handle now GetBids a = updateAuctionStatusMiddleware now a"
| "handle now (Bid uid amt) a = fst (placeBid a uid amt now)"
| "handle now (Update u uid r) a = fst (updateFields a u uid r now)"
| "handle now (Cancel uid r) a = fst (cancel a uid r now)"
| "handle now (Settle uid r) a = fst (settle a uid r now)"
| "handle now Sweep a = hd (findActiveAndUpdateStatus now [a])"

fun run :: "auction \<Rightarrow> (date \<times> request) list \<Rightarrow> auction" where
  "run a [] = a"
| "run a ((now, q) # qs) = run (handle now q a) qs"

text \<open>
  A sequence of bids (bidder, amount, clock reading) that all succeed: the stored
  auctions after each bid, or None when one of the bids is rejected.
\<close>

fun placeBids :: "auction \<Rightarrow> (object_id \<times> real \<times> date) list \<Rightarrow> auction list option" where
  "placeBids a [] = Some []"
| "placeBids a ((uid, amt, now) # bs) =
     (case snd (placeBid a uid amt now) of
        Inl e \<Rightarrow> None
      | Inr a' \<Rightarrow> (case placeBids a' bs of None \<Rightarrow> None | Some as \<Rightarrow> Some (a' # as)))"

text \<open>
  The highest bid is the amount of the last bid of the history, or the starting bid
  when there are no bids.
\<close>

definition highestBidInv :: "auction \<Rightarrow> bool" where
  "highestBidInv a =
     (currentHighestBid a = (if bids a = [] then startingBid a else amount (last (bids a))))"

subsection \<open>Sample documents\<close>

text \<open>
  An auction of seller 10 on product 1 that runs for one hour from time 0, with starting
  bid 100 and no reserve, stored as Upcoming and without bids.
\<close>

definition sampleAuction :: auction where
  "sampleAuction =
     \<lparr> product = 1, seller = 10, startTime = 0, endTime = 3600000,
       startingBid = 100, currentHighestBid = 100, currentHighestBidder = None,
       bids = [], status = Upcoming, winner = None, reservePrice = None,
       buyNowPrice = None, viewCount = 0, createdAt = 0, updatedAt = 0 \<rparr>"

text \<open>
  The same auction with reserve price 100, stored as Active, after one bid of \<open>x\<close> by
  user 20 at time 1000.
\<close>

definition sampleWithBid :: "real \<Rightarrow> auction" where
  "sampleWithBid x =
     sampleAuction\<lparr> status := Active, reservePrice := Some 100,
       bids := [\<lparr> user = 20, amount = x, timestamp = 1000 \<rparr>],
       currentHighestBid := x, currentHighestBidder := Some 20 \<rparr>"

text \<open>A product of seller 10 with three items in stock, and a request to auction it.\<close>

definition sampleProducts :: "object_id \<Rightarrow> product_doc option" where
  "sampleProducts = (\<lambda>i. if i = 1 then Some \<lparr> prod_seller = 10, stock = 3 \<rparr> else None)"

definition sampleBody :: auction_body where
  "sampleBody =
     \<lparr> b_product = 1, b_startTime = 0, b_endTime = 3600000, b_startingBid = 100,
       b_reservePrice = None, b_buyNowPrice = None \<rparr>"

text \<open>
  Two late bids in a row on the sample auction: 101 by user 20 two minutes before the
  end, then 103 by user 21; and the auction that the request above creates when the
  clock is already past its end time.
\<close>

definition sampleBid1 :: auction where
  "sampleBid1 = fst (placeBid sampleAuction 20 101 3480000)"

definition sampleBid2 :: auction where
  "sampleBid2 = fst (placeBid sampleBid1 21 103 3700000)"

definition samplePast :: auction where
  "samplePast = projr (create sampleProducts [] 10 (Some Seller) sampleBody 4000000)"



definition double_8_03 :: real where
  "double_8_03 = 4520488125973135 / 2 ^ 49"

text \<open>
  The doubles that the literals \<^verbatim>\<open>127.04\<close> and \<^verbatim>\<open>128.04\<close> denote, and the double
  next above the second.
\<close>

definition double_127_04 :: real where
  "double_127_04 = 8939645260330435 / 2 ^ 46"

definition double_128_04 :: real where
  "double_128_04 = 4505007002254049 / 2 ^ 45"

definition double_128_04_up :: real where
  "double_128_04_up = 4505007002254050 / 2 ^ 45"


section \<open>Field-wise facts about saving and refreshing\<close>

lemmas double_defs = floorLog2_def bitLength.simps roundHalfEven_def Let_def double_0_01_def

text \<open>
  Rounding a positive real, step by step: the exponent, the rounded significand, the
  result.
\<close>

lemma toDouble_pos:
  assumes "0 < x" "floorLog2 x = k" "max (k - 52) (- 1074) = e"
    "roundHalfEven (x / 2 powi e) = m" "of_int m * 2 powi e = r" "r < 2 ^ 1024"
  shows "toDouble x = Finite r"
  using assms by (simp add: toDouble_def Let_def)

lemma literal_0_01: "toDouble (1 / 100) = Finite double_0_01"
  by (rule toDouble_pos[where k = "- 7" and e = "- 59" and m = 5764607523034235])
     (simp_all add: double_defs)

lemma js_mul_100: "js_mul 100 double_0_01 = Finite 1"
  unfolding js_mul_def
  by (rule toDouble_pos[where k = 0 and e = "- 52" and m = "2 ^ 52"])
     (simp_all add: double_defs)

lemma js_add_100: "js_add 100 (Finite 1) = Finite 101"
  unfolding js_add_def number.case
  by (rule toDouble_pos[where k = 6 and e = "- 46" and m = "101 * 2 ^ 46"])
     (simp_all add: double_defs)

lemma js_add_101: "js_add 101 (Finite 1) = Finite 102"
  unfolding js_add_def number.case
  by (rule toDouble_pos[where k = 6 and e = "- 46" and m = "102 * 2 ^ 46"])
     (simp_all add: double_defs)



lemma literal_8_03: "toDouble (803 / 100) = Finite double_8_03"
  unfolding double_8_03_def
  by (rule toDouble_pos[where k = 3 and e = "- 49" and m = 4520488125973135])
     (simp_all add: double_defs)

lemma literal_127_04: "toDouble (12704 / 100) = Finite double_127_04"
  unfolding double_127_04_def
  by (rule toDouble_pos[where k = 6 and e = "- 46" and m = 8939645260330435])
     (simp_all add: double_defs)

lemma literal_128_04: "toDouble (12804 / 100) = Finite double_128_04"
  unfolding double_128_04_def
  by (rule toDouble_pos[where k = 7 and e = "- 45" and m = 4505007002254049])
     (simp_all add: double_defs)

lemma js_add_127_04: "js_add double_127_04 (Finite 1) = Finite double_128_04_up"
  unfolding js_add_def number.case double_127_04_def double_128_04_up_def
  by (rule toDouble_pos[where k = 7 and e = "- 45" and m = 4505007002254050])
     (simp_all add: double_defs)

lemma double_128_04_order:
  "0 < double_128_04" "double_127_04 < double_128_04" "double_128_04 < double_128_04_up"
  "\<not> double_128_04 \<le> double_127_04"
  by (simp_all add: double_127_04_def double_128_04_def double_128_04_up_def)

lemmas eval_defs = placeBid_def Let_def updateAuctionStatusMiddleware_def save_def pre_save_def
  updateAuctionStatus_def sampleAuction_def sampleWithBid_def or_zero_def truthy_def
  js_mul_100 js_add_100 js_add_101 js_lt_def

lemmas route_defs = settle_def processWinner_def authorizeRole_def eval_defs

lemma or_zero_eq: "or_zero x = (case x of None \<Rightarrow> 0 | Some r \<Rightarrow> r)"
  by (simp add: or_zero_def split: option.splits)

lemma save_simps:
  "status (save now a) = status a" "seller (save now a) = seller a"
  "bids (save now a) = bids a" "startingBid (save now a) = startingBid a"
  "endTime (save now a) = endTime a" "startTime (save now a) = startTime a"
  "winner (save now a) = winner a" "currentHighestBidder (save now a) = currentHighestBidder a"
  "reservePrice (save now a) = reservePrice a"
  by (simp_all add: save_def pre_save_def Let_def)

lemma save_highest: "currentHighestBid a \<le> currentHighestBid (save now a)"
  by (simp add: save_def pre_save_def Let_def)

lemma save_highest_bids: "bids a \<noteq> [] \<Longrightarrow> currentHighestBid (save now a) = currentHighestBid a"
  by (simp add: save_def pre_save_def Let_def)

lemma refresh_simps:
  "seller (updateAuctionStatus now a) = seller a"
  "bids (updateAuctionStatus now a) = bids a"
  "startingBid (updateAuctionStatus now a) = startingBid a"
  "endTime (updateAuctionStatus now a) = endTime a"
  "startTime (updateAuctionStatus now a) = startTime a"
  "winner (updateAuctionStatus now a) = winner a"
  "currentHighestBidder (updateAuctionStatus now a) = currentHighestBidder a"
  "currentHighestBid (updateAuctionStatus now a) = currentHighestBid a"
  "reservePrice (updateAuctionStatus now a) = reservePrice a"
  by (simp_all add: updateAuctionStatus_def)

lemma middleware_simps:
  "status (updateAuctionStatusMiddleware now a) = status (updateAuctionStatus now a)"
  "seller (updateAuctionStatusMiddleware now a) = seller a"
  "bids (updateAuctionStatusMiddleware now a) = bids a"
  "startingBid (updateAuctionStatusMiddleware now a) = startingBid a"
  "endTime (updateAuctionStatusMiddleware now a) = endTime a"
  "startTime (updateAuctionStatusMiddleware now a) = startTime a"
  "winner (updateAuctionStatusMiddleware now a) = winner a"
  "currentHighestBidder (updateAuctionStatusMiddleware now a) = currentHighestBidder a"
  "reservePrice (updateAuctionStatusMiddleware now a) = reservePrice a"
  by (simp_all add: updateAuctionStatusMiddleware_def save_simps refresh_simps)

lemma middleware_highest:
  "currentHighestBid a \<le> currentHighestBid (updateAuctionStatusMiddleware now a)"
  using save_highest[of "updateAuctionStatus now a" now]
  by (simp add: updateAuctionStatusMiddleware_def refresh_simps)


lemma status_ended_iff:
  "status (updateAuctionStatus now a) = Ended \<longleftrightarrow>
     \<not> terminal (status a) \<and> startTime a \<le> now \<and> endTime a \<le> now
     \<and> currentHighestBidder a \<noteq> None \<and> or_zero (reservePrice a) \<le> currentHighestBid a"
  by (auto simp: updateAuctionStatus_def terminal_def)

lemma updateAuctionStatus_terminal:
  "terminal (status a) \<Longrightarrow> updateAuctionStatus now a = a"
  by (auto simp: updateAuctionStatus_def terminal_def)

section \<open>Status refresh\<close>

text \<open>
  Claim C1. The status refresh is this case split, for every auction and every clock
  reading: a status in Cancelled, Sold, Expired leaves the auction as it is; otherwise
  only the status changes, to Upcoming before the start time, to Active from the start
  time up to the end time, and from the end time on to Ended when there is a highest
  bidder and the highest bid is at least the reserve price (0 when there is none), and
  to Expired otherwise.
\<close>

theorem updateAuctionStatus_cases:
  "updateAuctionStatus now a =
     (if status a \<in> {Cancelled, Sold, Expired} then a
      else a\<lparr>status :=
        (if now < startTime a then Upcoming
         else if startTime a \<le> now \<and> now < endTime a then Active
         else if currentHighestBidder a \<noteq> None
                 \<and> currentHighestBid a \<ge> (case reservePrice a of None \<Rightarrow> 0 | Some r \<Rightarrow> r)
              then Ended
              else Expired)\<rparr>)"
  by (simp add: updateAuctionStatus_def or_zero_eq)

text \<open>
  Claim C7. Terminal monotonicity: an auction whose status is Cancelled, Sold or Expired
  is left exactly as it is by every sequence of status refreshes, at any clock readings;
  in particular its status never changes.
\<close>

theorem refresh_all_terminal:
  "terminal (status a) \<Longrightarrow> refresh_all ts a = a \<and> status (refresh_all ts a) = status a"
  by (induction ts) (simp_all add: updateAuctionStatus_terminal)

theorem refresh_all_terminal_witness:
  "terminal (status (sampleAuction\<lparr>status := Sold\<rparr>))
   \<and> refresh_all [-5, 1000, 4000000] (sampleAuction\<lparr>status := Sold\<rparr>)
        = sampleAuction\<lparr>status := Sold\<rparr>
   \<and> status (refresh_all [-5, 1000, 4000000] (sampleAuction\<lparr>status := Sold\<rparr>)) = Sold"
  using refresh_all_terminal[of "sampleAuction\<lparr>status := Sold\<rparr>" "[-5, 1000, 4000000]"]
  by (simp add: terminal_def)

section \<open>Placing a bid\<close>

text \<open>What a bid that is accepted has checked and what it leaves stored.\<close>

lemma placeBid_success:
  assumes "snd (placeBid a uid amt now) = Inr a'"
  shows "status (updateAuctionStatus now a) = Active" "0 < amt" "seller a \<noteq> uid"
    "currentHighestBid a < amt"
    "bids a' = bids a @ [\<lparr> user = uid, amount = amt, timestamp = now \<rparr>]"
    "currentHighestBid a' = amt" "currentHighestBidder a' = Some uid"
    "endTime a' = (if endTime a - now < 300000 then now + 300000 else endTime a)"
    "startTime a' = startTime a" "seller a' = seller a" "startingBid a' = startingBid a"
    "status a' = Active" "fst (placeBid a uid amt now) = a'"
proof -
  let ?a1 = "updateAuctionStatusMiddleware now a"
  have le: "currentHighestBid a \<le> currentHighestBid ?a1"
    using save_highest[of "updateAuctionStatus now a" now]
    by (simp add: updateAuctionStatusMiddleware_def refresh_simps)
  from assms show "status (updateAuctionStatus now a) = Active" "0 < amt" "seller a \<noteq> uid"
    by (auto simp: placeBid_def Let_def middleware_simps split: if_splits)
  from assms have "currentHighestBid ?a1 < amt"
    by (auto simp: placeBid_def Let_def split: if_splits)
  with le show "currentHighestBid a < amt" by simp
  from assms show "bids a' = bids a @ [\<lparr> user = uid, amount = amt, timestamp = now \<rparr>]"
    "currentHighestBid a' = amt" "currentHighestBidder a' = Some uid"
    "endTime a' = (if endTime a - now < 300000 then now + 300000 else endTime a)"
    "startTime a' = startTime a" "seller a' = seller a" "startingBid a' = startingBid a"
    "status a' = Active" "fst (placeBid a uid amt now) = a'"
    by (auto simp: placeBid_def Let_def middleware_simps save_simps save_highest_bids split: if_splits)
qed



text \<open>The two sample bids, evaluated.\<close>

lemma sampleBid1_eq:
  "placeBid sampleAuction 20 101 3480000 = (sampleBid1, Inr sampleBid1)"
  "sampleBid1 = sampleAuction\<lparr> endTime := 3780000, currentHighestBid := 101,
       currentHighestBidder := Some 20,
       bids := [\<lparr> user = 20, amount = 101, timestamp = 3480000 \<rparr>],
       status := Active, updatedAt := 3480000 \<rparr>"
  by (simp_all add: sampleBid1_def eval_defs)

lemma sampleBid2_eq:
  "placeBid sampleBid1 21 103 3700000 = (sampleBid2, Inr sampleBid2)"
  "sampleBid2 = sampleAuction\<lparr> endTime := 4000000, currentHighestBid := 103,
       currentHighestBidder := Some 21,
       bids := [\<lparr> user = 20, amount = 101, timestamp = 3480000 \<rparr>,
                \<lparr> user = 21, amount = 103, timestamp = 3700000 \<rparr>],
       status := Active, updatedAt := 3700000 \<rparr>"
  by (simp_all add: sampleBid2_def sampleBid1_eq(2) eval_defs)

text \<open>
  The two roundings of the minimum next bid at work. On a highest bid of
  \<^verbatim>\<open>127.04\<close> with starting bid 100 and one bid, the minimum is the double next
  above \<^verbatim>\<open>128.04\<close>, and a bid of \<^verbatim>\<open>128.04\<close> is rejected.
\<close>

lemma placeBid_rounded_minimum:
  "snd (placeBid (sampleWithBid double_127_04) 21 double_128_04 2000)
     = Inl (Error 400 (BidBelowMinimum (Finite double_128_04_up)))"
  by (simp add: placeBid_def Let_def updateAuctionStatusMiddleware_def save_def pre_save_def
      updateAuctionStatus_def sampleAuction_def sampleWithBid_def js_mul_100 js_add_127_04
      js_lt_def double_128_04_order)




text \<open>
  Claim C4. For every accepted bid at time \<open>now\<close>: when less than 5 minutes are left
  to the end time, the new end time is \<open>now\<close> plus 5 minutes (so for a bid 2 minutes
  before the end); otherwise the end time stays (so for a bid 10 minutes before the
  end). A second late bid moves the end time to 5 minutes after its own time: the
  extensions do not add up.
\<close>

theorem placeBid_anti_sniping:
  "(snd (placeBid a uid amt now) = Inr a' \<longrightarrow>
      endTime a' = (if endTime a - now < 5 * 60 * 1000 then now + 5 * 60 * 1000 else endTime a)
      \<and> (now = endTime a - 2 * 60 * 1000 \<longrightarrow> endTime a' = now + 5 * 60 * 1000)
      \<and> (now = endTime a - 10 * 60 * 1000 \<longrightarrow> endTime a' = endTime a))
   \<and> (snd (placeBid a uid amt now) = Inr a' \<and> snd (placeBid a' uid2 amt2 now2) = Inr a''
        \<and> endTime a' - now2 < 5 * 60 * 1000 \<longrightarrow> endTime a'' = now2 + 5 * 60 * 1000)"
proof (intro conjI impI)
  assume "snd (placeBid a uid amt now) = Inr a'"
  from placeBid_success(8)[OF this]
  show "endTime a' = (if endTime a - now < 5 * 60 * 1000 then now + 5 * 60 * 1000 else endTime a)"
    by simp
next
  assume "snd (placeBid a uid amt now) = Inr a'" "now = endTime a - 2 * 60 * 1000"
  with placeBid_success(8)[of a uid amt now a']
  show "endTime a' = now + 5 * 60 * 1000" by simp
next
  assume "snd (placeBid a uid amt now) = Inr a'" "now = endTime a - 10 * 60 * 1000"
  with placeBid_success(8)[of a uid amt now a']
  show "endTime a' = endTime a" by simp
next
  assume "snd (placeBid a uid amt now) = Inr a' \<and> snd (placeBid a' uid2 amt2 now2) = Inr a''
        \<and> endTime a' - now2 < 5 * 60 * 1000"
  with placeBid_success(8)[of a' uid2 amt2 now2 a'']
  show "endTime a'' = now2 + 5 * 60 * 1000" by simp
qed

theorem placeBid_anti_sniping_witness:
  "snd (placeBid sampleAuction 20 101 3480000) = Inr sampleBid1
   \<and> 3480000 = endTime sampleAuction - 2 * 60 * 1000
   \<and> endTime sampleBid1 = 3480000 + 5 * 60 * 1000
   \<and> snd (placeBid sampleBid1 21 103 3700000) = Inr sampleBid2
   \<and> endTime sampleBid1 - 3700000 < 5 * 60 * 1000
   \<and> endTime sampleBid2 = 3700000 + 5 * 60 * 1000
   \<and> snd (placeBid sampleAuction 20 101 3000000)
        = Inr (fst (placeBid sampleAuction 20 101 3000000))
   \<and> 3000000 = endTime sampleAuction - 10 * 60 * 1000
   \<and> endTime (fst (placeBid sampleAuction 20 101 3000000)) = endTime sampleAuction"
  using placeBid_anti_sniping[of sampleAuction 20 101 3480000 sampleBid1 21 103 3700000 sampleBid2]
    placeBid_anti_sniping[of sampleAuction 20 101 3000000
      "fst (placeBid sampleAuction 20 101 3000000)" 21 103 3700000 sampleBid2]
  by (simp add: sampleBid1_eq(1) sampleBid2_eq(1)) (simp add: eval_defs)

section \<open>Cancelling\<close>

lemma cancel_cases:
  fixes a uid r now
  defines "a1 \<equiv> updateAuctionStatusMiddleware now a"
  assumes auth: "seller a = uid \<or> r = Admin"
  shows "(status a1 \<in> {Ended, Sold, Expired} \<longrightarrow>
            cancel a uid r now = (a1, Inl (Error 400 (CannotCancel (status a1)))))
       \<and> (status a1 = Active \<and> bids a1 \<noteq> [] \<and> r \<noteq> Admin \<longrightarrow>
            cancel a uid r now = (a1, Inl (Error 400 CancelActiveWithBids)))
       \<and> (status a1 \<notin> {Ended, Sold, Expired}
            \<and> \<not> (status a1 = Active \<and> bids a1 \<noteq> [] \<and> r \<noteq> Admin) \<longrightarrow>
            (\<exists>a2. cancel a uid r now = (a2, Inr a2) \<and> status a2 = Cancelled))"
  using auth unfolding a1_def
  by (auto simp: cancel_def Let_def middleware_simps save_simps)

text \<open>
  Claim C8, amended. A cancel request of the seller or of an admin sets the status to
  Cancelled and stores it; it is rejected with 400 "cannot cancel" (InvalidState) when
  the status after the refresh is Ended, Sold or Expired, and it is rejected with 400
  as well, with the message that only an admin may cancel, when the status is Active,
  there is at least one bid and the requester is not an admin. That last rejection is
  not the 403 which the routes use for Forbidden. A rejected request leaves the
  refreshed auction stored.
\<close>

theorem cancel_checks:
  assumes "a1 = updateAuctionStatusMiddleware now a" "seller a = uid \<or> r = Admin"
  shows "(status a1 \<in> {Ended, Sold, Expired} \<longrightarrow>
            cancel a uid r now = (a1, Inl (Error 400 (CannotCancel (status a1)))))
       \<and> (status a1 = Active \<and> bids a1 \<noteq> [] \<and> r \<noteq> Admin \<longrightarrow>
            cancel a uid r now = (a1, Inl (Error 400 CancelActiveWithBids)))
       \<and> (status a1 \<notin> {Ended, Sold, Expired}
            \<and> \<not> (status a1 = Active \<and> bids a1 \<noteq> [] \<and> r \<noteq> Admin) \<longrightarrow>
            (\<exists>a2. cancel a uid r now = (a2, Inr a2) \<and> status a2 = Cancelled))"
  using cancel_cases[OF assms(2), of now] unfolding assms(1) .

theorem cancel_checks_witness:
  "(seller (sampleWithBid 150) = 10 \<or> Seller = Admin)
   \<and> status (updateAuctionStatusMiddleware 3600000 (sampleWithBid 150)) = Ended
   \<and> snd (cancel (sampleWithBid 150) 10 Seller 3600000) = Inl (Error 400 (CannotCancel Ended))
   \<and> status (updateAuctionStatusMiddleware 2000 (sampleWithBid 150)) = Active
   \<and> bids (updateAuctionStatusMiddleware 2000 (sampleWithBid 150)) \<noteq> []
   \<and> snd (cancel (sampleWithBid 150) 10 Seller 2000) = Inl (Error 400 CancelActiveWithBids)
   \<and> status (fst (cancel (sampleWithBid 150) 99 Admin 2000)) = Cancelled
   \<and> status (fst (cancel sampleAuction 10 Seller 2000)) = Cancelled"
  using
    cancel_checks[of "updateAuctionStatusMiddleware 3600000 (sampleWithBid 150)" 3600000
      "sampleWithBid 150" 10 Seller]
    cancel_checks[of "updateAuctionStatusMiddleware 2000 (sampleWithBid 150)" 2000
      "sampleWithBid 150" 10 Seller]
    cancel_checks[of "updateAuctionStatusMiddleware 2000 (sampleWithBid 150)" 2000
      "sampleWithBid 150" 99 Admin]
    cancel_checks[of "updateAuctionStatusMiddleware 2000 sampleAuction" 2000 sampleAuction 10 Seller]
  by (simp add: cancel_def eval_defs)

theorem cancel_checks_counterexample:
  "status (updateAuctionStatusMiddleware 2000 (sampleWithBid 150)) = Active
   \<and> length (bids (updateAuctionStatusMiddleware 2000 (sampleWithBid 150))) = 1
   \<and> snd (cancel (sampleWithBid 150) 10 Seller 2000) = Inl (Error 400 CancelActiveWithBids)
   \<and> http_status (projl (snd (cancel (sampleWithBid 150) 10 Seller 2000))) \<noteq> 403"
  by (simp add: cancel_def eval_defs)

section \<open>Settling\<close>

lemma authorizeRole_passes:
  "authorizeRole (Roles rs) userRole = None \<longleftrightarrow> (\<exists>r. userRole = Some r \<and> r \<in> set rs)"
  by (simp add: authorizeRole_def Let_def split: option.splits)

lemma ended_reserve_met:
  assumes "status (updateAuctionStatusMiddleware now a) = Ended"
  shows "\<not> (truthy (reservePrice (updateAuctionStatusMiddleware now a))
           \<and> currentHighestBid (updateAuctionStatusMiddleware now a)
               < the (reservePrice (updateAuctionStatusMiddleware now a)))"
    and "reservePrice a = None
         \<or> the (reservePrice a) \<le> currentHighestBid (updateAuctionStatusMiddleware now a)"
    and "currentHighestBidder a \<noteq> None"
proof -
  from assms have e: "or_zero (reservePrice a) \<le> currentHighestBid a"
    and b: "currentHighestBidder a \<noteq> None"
    by (simp_all add: middleware_simps status_ended_iff)
  from e middleware_highest[of a now]
  have "or_zero (reservePrice a) \<le> currentHighestBid (updateAuctionStatusMiddleware now a)"
    by simp
  then show "\<not> (truthy (reservePrice (updateAuctionStatusMiddleware now a))
           \<and> currentHighestBid (updateAuctionStatusMiddleware now a)
               < the (reservePrice (updateAuctionStatusMiddleware now a)))"
    and "reservePrice a = None
         \<or> the (reservePrice a) \<le> currentHighestBid (updateAuctionStatusMiddleware now a)"
    by (auto simp: middleware_simps truthy_def or_zero_def split: option.splits if_splits)
  from b show "currentHighestBidder a \<noteq> None" .
qed

text \<open>The handler on any auction that is handed to it, for the seller or an admin.\<close>

lemma processWinner_cases:
  assumes "seller b = uid \<or> userRole = Some Admin"
  shows "status b \<noteq> Ended \<longrightarrow>
           processWinner b uid userRole now = (b, Inl (Error 400 (NotEnded (status b))))"
    and "status b = Ended \<and> currentHighestBidder b = None \<longrightarrow>
           processWinner b uid userRole now = (b, Inl (Error 400 NoWinner))"
    and "status b = Ended \<and> currentHighestBidder b \<noteq> None
           \<and> reservePrice b = Some x \<and> x \<noteq> 0 \<and> currentHighestBid b < x \<longrightarrow>
           status (fst (processWinner b uid userRole now)) = Expired
           \<and> winner (fst (processWinner b uid userRole now)) = winner b
           \<and> snd (processWinner b uid userRole now)
               = Inl (Error 400 (ReserveNotMet (currentHighestBid b) x))"
    and "status b = Ended \<and> currentHighestBidder b \<noteq> None
           \<and> (reservePrice b = None \<or> the (reservePrice b) \<le> currentHighestBid b) \<longrightarrow>
         (\<exists>a2. processWinner b uid userRole now = (a2, Inr a2)
                \<and> winner a2 = currentHighestBidder b \<and> status a2 = Sold)"
  using assms
  by (auto simp: processWinner_def Let_def save_simps truthy_def split: option.splits)

text \<open>The route, for a requester whom the role check lets through.\<close>

lemma settle_route:
  fixes a uid userRole now
  defines "a1 \<equiv> updateAuctionStatusMiddleware now a"
  assumes auth: "authorizeRole (Roles [Admin, Seller]) userRole = None"
    "seller a = uid \<or> userRole = Some Admin"
  shows "settle a uid userRole now = processWinner a1 uid userRole now"
    and "status a1 = Ended \<longrightarrow>
           currentHighestBidder a1 \<noteq> None
           \<and> (reservePrice a1 = None \<or> the (reservePrice a1) \<le> currentHighestBid a1)
           \<and> (\<exists>a2. settle a uid userRole now = (a2, Inr a2)
                  \<and> winner a2 = currentHighestBidder a1 \<and> status a2 = Sold)"
    and "status a1 \<noteq> Ended \<longrightarrow>
           settle a uid userRole now = (a1, Inl (Error 400 (NotEnded (status a1))))"
    and "currentHighestBidder a1 = None \<longrightarrow>
           settle a uid userRole now = (a1, Inl (Error 400 (NotEnded (status a1))))"
proof -
  show s: "settle a uid userRole now = processWinner a1 uid userRole now"
    using auth(1) by (simp add: settle_def a1_def)
  have sel: "seller a1 = uid \<or> userRole = Some Admin"
    using auth(2) by (simp add: a1_def middleware_simps)
  show e: "status a1 = Ended \<longrightarrow>
           currentHighestBidder a1 \<noteq> None
           \<and> (reservePrice a1 = None \<or> the (reservePrice a1) \<le> currentHighestBid a1)
           \<and> (\<exists>a2. settle a uid userRole now = (a2, Inr a2)
                  \<and> winner a2 = currentHighestBidder a1 \<and> status a2 = Sold)"
  proof
    assume en: "status a1 = Ended"
    then have b: "currentHighestBidder a1 \<noteq> None"
      and r: "reservePrice a1 = None \<or> the (reservePrice a1) \<le> currentHighestBid a1"
      using ended_reserve_met(2,3)[of now a] by (simp_all add: a1_def middleware_simps)
    with en processWinner_cases(4)[OF sel, of now] s
    show "currentHighestBidder a1 \<noteq> None
           \<and> (reservePrice a1 = None \<or> the (reservePrice a1) \<le> currentHighestBid a1)
           \<and> (\<exists>a2. settle a uid userRole now = (a2, Inr a2)
                  \<and> winner a2 = currentHighestBidder a1 \<and> status a2 = Sold)"
      by simp
  qed
  show n: "status a1 \<noteq> Ended \<longrightarrow>
           settle a uid userRole now = (a1, Inl (Error 400 (NotEnded (status a1))))"
    using processWinner_cases(1)[OF sel, of now] s by simp
  show "currentHighestBidder a1 = None \<longrightarrow>
           settle a uid userRole now = (a1, Inl (Error 400 (NotEnded (status a1))))"
    using e n by blast
qed

lemma settle_never_reserve_unmet:
  "snd (settle a uid userRole now) \<noteq> Inl (Error 400 (ReserveNotMet h x))"
  using ended_reserve_met(1)[of now a]
  by (auto simp: settle_def processWinner_def Let_def authorizeRole_def
      split: option.splits if_splits)

lemma settle_ended_not_expired:
  "status (updateAuctionStatusMiddleware now a) = Ended \<Longrightarrow>
     status (fst (settle a uid userRole now)) \<noteq> Expired"
  using ended_reserve_met(1)[of now a]
  by (auto simp: settle_def processWinner_def Let_def save_simps middleware_simps
      updateAuctionStatus_def authorizeRole_def split: option.splits if_splits)

lemma ended_after_refresh:
  "status (updateAuctionStatus now a) = Ended \<Longrightarrow>
     currentHighestBidder (updateAuctionStatus now a) \<noteq> None
     \<and> (case reservePrice (updateAuctionStatus now a) of None \<Rightarrow> 0 | Some x \<Rightarrow> x)
          \<le> currentHighestBid (updateAuctionStatus now a)"
  by (simp add: status_ended_iff refresh_simps or_zero_eq)

lemma processWinner_after_refresh:
  assumes "status (updateAuctionStatus now a) = Ended"
  shows "snd (processWinner (updateAuctionStatus now a) uid userRole t)
           \<noteq> Inl (Error 400 (ReserveNotMet h x))"
    and "status (fst (processWinner (updateAuctionStatus now a) uid userRole t)) \<noteq> Expired"
  using ended_after_refresh[OF assms] assms
  by (auto simp: processWinner_def Let_def save_simps truthy_def split: option.splits)

text \<open>
  Claim C5. A settle request of the seller or of an admin, on an auction whose status
  after the refresh is Ended, finds a highest bidder and the reserve met (no reserve
  price, or a highest bid that is at least the reserve price), and stores the highest
  bidder as winner and the status Sold. It answers 400 "must be Ended" (InvalidState)
  when the status after the refresh is not Ended, which is the case whenever there is
  no highest bidder. The route is the handler on the refreshed auction; on any auction
  that is handed to it as Ended with a highest bidder, the handler stores winner and
  Sold when the reserve is met, and stores Expired and answers 400 "reserve price not
  met" (PreconditionFailed) when the highest bid is below a reserve price that is not
  0; it answers 400 (InvalidState) when the auction is not Ended or has no highest
  bidder.
\<close>

theorem settle_effect:
  assumes "a1 = updateAuctionStatusMiddleware now a"
    "authorizeRole (Roles [Admin, Seller]) userRole = None"
    "seller a = uid \<or> userRole = Some Admin"
  shows
   "settle a uid userRole now = processWinner a1 uid userRole now
    \<and> (status a1 = Ended \<longrightarrow>
         currentHighestBidder a1 \<noteq> None
         \<and> (reservePrice a1 = None \<or> the (reservePrice a1) \<le> currentHighestBid a1)
         \<and> (\<exists>a2. settle a uid userRole now = (a2, Inr a2)
                \<and> winner a2 = currentHighestBidder a1 \<and> status a2 = Sold))
    \<and> (status a1 \<noteq> Ended \<longrightarrow>
         settle a uid userRole now = (a1, Inl (Error 400 (NotEnded (status a1)))))
    \<and> (currentHighestBidder a1 = None \<longrightarrow>
         settle a uid userRole now = (a1, Inl (Error 400 (NotEnded (status a1)))))
    \<and> ((seller b = uid \<or> userRole = Some Admin) \<and> status b = Ended
         \<and> currentHighestBidder b \<noteq> None
         \<and> (reservePrice b = None \<or> the (reservePrice b) \<le> currentHighestBid b) \<longrightarrow>
         (\<exists>a2. processWinner b uid userRole now = (a2, Inr a2)
                \<and> winner a2 = currentHighestBidder b \<and> status a2 = Sold))
    \<and> ((seller b = uid \<or> userRole = Some Admin) \<and> status b = Ended
         \<and> currentHighestBidder b \<noteq> None
         \<and> reservePrice b = Some x \<and> x \<noteq> 0 \<and> currentHighestBid b < x \<longrightarrow>
         status (fst (processWinner b uid userRole now)) = Expired
         \<and> winner (fst (processWinner b uid userRole now)) = winner b
         \<and> snd (processWinner b uid userRole now)
             = Inl (Error 400 (ReserveNotMet (currentHighestBid b) x)))
    \<and> ((seller b = uid \<or> userRole = Some Admin) \<and> status b \<noteq> Ended \<longrightarrow>
         processWinner b uid userRole now = (b, Inl (Error 400 (NotEnded (status b)))))
    \<and> ((seller b = uid \<or> userRole = Some Admin) \<and> status b = Ended
         \<and> currentHighestBidder b = None \<longrightarrow>
         processWinner b uid userRole now = (b, Inl (Error 400 NoWinner)))"
  using settle_route[OF assms(2,3), of now]
    processWinner_cases(1)[of b uid userRole now] processWinner_cases(2)[of b uid userRole now]
    processWinner_cases(3)[of b uid userRole x now] processWinner_cases(4)[of b uid userRole now]
  unfolding assms(1) by blast

theorem settle_effect_witness:
  "authorizeRole (Roles [Admin, Seller]) (Some Seller) = None
   \<and> authorizeRole (Roles [Admin, Seller]) (Some Admin) = None
   \<and> (seller (sampleWithBid 150) = 10 \<or> Some Seller = Some Admin)
   \<and> status (updateAuctionStatusMiddleware 3600000 (sampleWithBid 150)) = Ended
   \<and> status (fst (settle (sampleWithBid 150) 10 (Some Seller) 3600000)) = Sold
   \<and> winner (fst (settle (sampleWithBid 150) 10 (Some Seller) 3600000)) = Some 20
   \<and> snd (settle (sampleWithBid 150) 10 (Some Seller) 3600000)
       = Inr (fst (settle (sampleWithBid 150) 10 (Some Seller) 3600000))
   \<and> status (updateAuctionStatusMiddleware 2000 (sampleWithBid 150)) \<noteq> Ended
   \<and> snd (settle (sampleWithBid 150) 10 (Some Seller) 2000) = Inl (Error 400 (NotEnded Active))
   \<and> currentHighestBidder (updateAuctionStatusMiddleware 3600000 sampleAuction) = None
   \<and> snd (settle sampleAuction 99 (Some Admin) 3600000) = Inl (Error 400 (NotEnded Expired))
   \<and> status (fst (processWinner ((sampleWithBid 150)\<lparr>status := Ended\<rparr>) 99 (Some Admin) 5))
       = Sold
   \<and> status (fst (processWinner ((sampleWithBid 80)\<lparr>status := Ended\<rparr>) 99 (Some Admin) 5))
       = Expired
   \<and> snd (processWinner ((sampleWithBid 80)\<lparr>status := Ended\<rparr>) 99 (Some Admin) 5)
       = Inl (Error 400 (ReserveNotMet 80 100))
   \<and> snd (processWinner (sampleWithBid 150) 10 (Some Seller) 5)
       = Inl (Error 400 (NotEnded Active))
   \<and> snd (processWinner (sampleAuction\<lparr>status := Ended\<rparr>) 10 (Some Seller) 5)
       = Inl (Error 400 NoWinner)"
  using
    settle_effect[of "updateAuctionStatusMiddleware 3600000 (sampleWithBid 150)" 3600000
      "sampleWithBid 150" "Some Seller" 10 "(sampleWithBid 150)\<lparr>status := Ended\<rparr>" 100]
    settle_effect[of "updateAuctionStatusMiddleware 2000 (sampleWithBid 150)" 2000
      "sampleWithBid 150" "Some Seller" 10 "sampleWithBid 150" 100]
    settle_effect[of "updateAuctionStatusMiddleware 3600000 sampleAuction" 3600000
      sampleAuction "Some Admin" 99 "(sampleWithBid 80)\<lparr>status := Ended\<rparr>" 100]
    settle_effect[of "updateAuctionStatusMiddleware 5 sampleAuction" 5
      sampleAuction "Some Seller" 10 "sampleAuction\<lparr>status := Ended\<rparr>" 100]
  by (simp add: route_defs)

text \<open>
  Claim C9. After a status refresh, the status Ended implies that there is a highest
  bidder and that the highest bid is at least the reserve price (0 when there is none).
  So the handler of the settle request, run on an auction whose status has just been
  derived as Ended, never takes its reserve branch: it does not answer "reserve price
  not met" and does not store Expired; the same holds for the whole route, which
  refreshes first.
\<close>

theorem ended_reserve_unreachable:
  "(status (updateAuctionStatus now a) = Ended \<longrightarrow>
      currentHighestBidder (updateAuctionStatus now a) \<noteq> None
      \<and> (case reservePrice (updateAuctionStatus now a) of None \<Rightarrow> 0 | Some x \<Rightarrow> x)
           \<le> currentHighestBid (updateAuctionStatus now a)
      \<and> snd (processWinner (updateAuctionStatus now a) uid userRole t)
           \<noteq> Inl (Error 400 (ReserveNotMet h x))
      \<and> status (fst (processWinner (updateAuctionStatus now a) uid userRole t)) \<noteq> Expired)
   \<and> snd (settle a uid userRole now) \<noteq> Inl (Error 400 (ReserveNotMet h x))
   \<and> (status (updateAuctionStatusMiddleware now a) = Ended \<longrightarrow>
        status (fst (settle a uid userRole now)) \<noteq> Expired)"
  using ended_after_refresh[of now a]
    processWinner_after_refresh(1)[of now a uid userRole t h x]
    processWinner_after_refresh(2)[of now a uid userRole t]
    settle_never_reserve_unmet[of a uid userRole now h x]
    settle_ended_not_expired[of now a uid userRole]
  by blast

theorem ended_reserve_unreachable_witness:
  "status (updateAuctionStatus 3600000 (sampleWithBid 150)) = Ended
   \<and> currentHighestBidder (updateAuctionStatus 3600000 (sampleWithBid 150)) = Some 20
   \<and> reservePrice (updateAuctionStatus 3600000 (sampleWithBid 150)) = Some 100
   \<and> currentHighestBid (updateAuctionStatus 3600000 (sampleWithBid 150)) = 150
   \<and> status (fst (processWinner (updateAuctionStatus 3600000 (sampleWithBid 150)) 10
         (Some Seller) 3700000)) = Sold
   \<and> status (updateAuctionStatusMiddleware 3600000 (sampleWithBid 150)) = Ended
   \<and> status (fst (settle (sampleWithBid 150) 10 (Some Seller) 3600000)) = Sold"
  using ended_reserve_unreachable[where now = 3600000 and a = "sampleWithBid 150" and uid = 10
      and userRole = "Some Seller" and t = 3700000 and h = 150 and x = 100]
  by (simp add: route_defs)

section \<open>The highest bid\<close>

lemma inv_save: "highestBidInv a \<Longrightarrow> highestBidInv (save now a)"
  by (auto simp: highestBidInv_def save_def pre_save_def Let_def)

lemma inv_refresh: "highestBidInv a \<Longrightarrow> highestBidInv (updateAuctionStatus now a)"
  by (auto simp: highestBidInv_def updateAuctionStatus_def)

lemma inv_status: "highestBidInv a \<Longrightarrow> highestBidInv (a\<lparr>status := s\<rparr>)"
  by (simp add: highestBidInv_def)

lemma inv_middleware: "highestBidInv a \<Longrightarrow> highestBidInv (updateAuctionStatusMiddleware now a)"
  by (simp add: updateAuctionStatusMiddleware_def inv_save inv_refresh)

lemma inv_getAuction: "highestBidInv a \<Longrightarrow> highestBidInv (fst (getAuction a now))"
proof -
  assume "highestBidInv a"
  then have "highestBidInv (updateAuctionStatusMiddleware now a)" by (rule inv_middleware)
  then have "highestBidInv ((updateAuctionStatusMiddleware now a)
      \<lparr>viewCount := viewCount (updateAuctionStatusMiddleware now a) + 1\<rparr>)"
    by (simp add: highestBidInv_def)
  then show ?thesis by (simp add: getAuction_def Let_def inv_save)
qed

lemma inv_placeBid: "highestBidInv a \<Longrightarrow> highestBidInv (fst (placeBid a uid amt now))"
proof -
  assume "highestBidInv a"
  then have m: "highestBidInv (updateAuctionStatusMiddleware now a)" by (rule inv_middleware)
  show ?thesis
  proof (cases "snd (placeBid a uid amt now)")
    case (Inl e)
    then have "fst (placeBid a uid amt now) = updateAuctionStatusMiddleware now a"
      by (auto simp: placeBid_def Let_def split: if_splits)
    with m show ?thesis by simp
  next
    case (Inr a')
    from placeBid_success[OF Inr] show ?thesis
      by (simp add: highestBidInv_def)
  qed
qed

lemma inv_updateFields: "highestBidInv a \<Longrightarrow> highestBidInv (fst (updateFields a u uid r now))"
proof -
  assume "highestBidInv a"
  then have m: "highestBidInv (updateAuctionStatusMiddleware now a)" (is "highestBidInv ?a1")
    by (rule inv_middleware)
  define a5 where "a5 =
    (let a2 = (case u_startTime u of None \<Rightarrow> ?a1 | Some s \<Rightarrow> ?a1\<lparr>startTime := s\<rparr>);
         a3 = (case u_endTime u of None \<Rightarrow> a2 | Some e \<Rightarrow> a2\<lparr>endTime := e\<rparr>);
         a4 = (case u_reservePrice u of None \<Rightarrow> a3 | Some x \<Rightarrow> a3\<lparr>reservePrice := Some x\<rparr>)
     in (case u_buyNowPrice u of None \<Rightarrow> a4 | Some x \<Rightarrow> a4\<lparr>buyNowPrice := Some x\<rparr>))"
  have "highestBidInv a5"
    using m by (simp add: a5_def Let_def highestBidInv_def split: option.splits)
  then have "highestBidInv (save now (updateAuctionStatus now a5))"
    by (simp add: inv_save inv_refresh)
  with m show ?thesis
    by (simp add: updateFields_def Let_def a5_def)
qed

lemma inv_cancel: "highestBidInv a \<Longrightarrow> highestBidInv (fst (cancel a uid r now))"
  using inv_middleware[of a now]
  by (simp add: cancel_def Let_def inv_save inv_status)

lemma inv_processWinner: "highestBidInv a \<Longrightarrow> highestBidInv (fst (processWinner a uid r now))"
proof -
  assume h: "highestBidInv a"
  then have "highestBidInv (a\<lparr>winner := currentHighestBidder a, status := Sold\<rparr>)"
    by (simp add: highestBidInv_def)
  with h show ?thesis
    by (simp add: processWinner_def Let_def inv_save inv_status)
qed

lemma inv_settle: "highestBidInv a \<Longrightarrow> highestBidInv (fst (settle a uid userRole now))"
  by (simp add: settle_def inv_processWinner inv_middleware split: option.splits)

lemma inv_sweepOne: "highestBidInv a \<Longrightarrow> highestBidInv (sweepOne now a)"
proof -
  assume "highestBidInv a"
  then have h: "highestBidInv (updateAuctionStatus now a)" by (rule inv_refresh)
  then have "highestBidInv ((updateAuctionStatus now a)
       \<lparr>winner := currentHighestBidder (updateAuctionStatus now a)\<rparr>)"
    by (simp add: highestBidInv_def)
  with h show ?thesis by (simp add: sweepOne_def Let_def inv_save)
qed

lemma inv_handle: "highestBidInv a \<Longrightarrow> highestBidInv (handle now q a)"
  by (cases q)
     (simp_all add: inv_getAuction inv_middleware inv_placeBid inv_updateFields inv_cancel
        inv_settle findActiveAndUpdateStatus_def inv_sweepOne)

lemma inv_run: "highestBidInv a \<Longrightarrow> highestBidInv (run a qs)"
  by (induction qs arbitrary: a) (auto simp: inv_handle)

lemma inv_create: "create products auctions uid r b now = Inr a \<Longrightarrow>
   highestBidInv a \<and> currentHighestBid a = startingBid a \<and> bids a = []"
  by (auto simp: create_def Let_def newAuction_def highestBidInv_def save_def pre_save_def
      updateAuctionStatus_def split: if_splits option.splits)

lemma placeBids_increasing:
  "placeBids a bs = Some as \<Longrightarrow>
     sorted_wrt (<) (currentHighestBid a # map currentHighestBid as)
     \<and> map currentHighestBid as = map (\<lambda>b. fst (snd b)) bs
     \<and> list_all (\<lambda>x. bids x \<noteq> [] \<and> currentHighestBid x = amount (last (bids x))) as"
proof (induction bs arbitrary: a as)
  case Nil
  then show ?case by simp
next
  case (Cons b bs)
  obtain uid amt now where b: "b = (uid, amt, now)" by (cases b)
  from Cons.prems b obtain a' as' where
    ok: "snd (placeBid a uid amt now) = Inr a'" and rest: "placeBids a' bs = Some as'"
    and as: "as = a' # as'"
    by (auto split: sum.splits option.splits)
  note f = placeBid_success[OF ok]
  from Cons.IH[OF rest] have ih1:
    "sorted_wrt (<) (currentHighestBid a' # map currentHighestBid as')"
    and ih2: "map currentHighestBid as' = map (\<lambda>b. fst (snd b)) bs"
    and ih3: "list_all (\<lambda>x. bids x \<noteq> [] \<and> currentHighestBid x = amount (last (bids x))) as'"
    by blast+
  have lt: "currentHighestBid a < currentHighestBid a'" using f by simp
  have "sorted_wrt (<) (currentHighestBid a # currentHighestBid a' # map currentHighestBid as')"
    using lt ih1 by auto
  then have c1: "sorted_wrt (<) (currentHighestBid a # map currentHighestBid as)"
    by (simp only: as list.map)
  have c2: "map currentHighestBid as = map (\<lambda>b. fst (snd b)) (b # bs)"
    using ih2 f(6) by (simp add: as b)
  have c3: "list_all (\<lambda>x. bids x \<noteq> [] \<and> currentHighestBid x = amount (last (bids x))) as"
    using ih3 f(5,6) by (simp add: as)
  from c1 c2 c3 show ?case by blast
qed

lemma samplePast_eq:
  "create sampleProducts [] 10 (Some Seller) sampleBody 4000000 = Inr samplePast"
  "samplePast = sampleAuction\<lparr> status := Expired, createdAt := 4000000, updatedAt := 4000000 \<rparr>"
  by (simp_all add: samplePast_def create_def create_valid_def newAuction_def sampleProducts_def
      sampleBody_def authorizeRole_def double_0_01_def eval_defs)

lemma sampleBids_eq:
  "placeBids sampleAuction [(20, 101, 3480000), (21, 103, 3700000)] = Some [sampleBid1, sampleBid2]"
  by (simp add: sampleBid1_eq(1) sampleBid2_eq(1))

text \<open>
  Claim C6. The highest bid is the amount of the last bid, or the starting bid when
  there are no bids: a created auction has this property, and the status refresh, a
  bid, an update, a cancellation, a settlement, every other request and every history
  of requests keep it. So along any sequence of accepted bids on one auction the highest
  bid increases strictly, and after each bid it is the amount of that bid, which is the
  last of the stored bids.
\<close>

theorem highestBid_invariant:
  "(create products auctions requester rr body now0 = Inr a0 \<longrightarrow>
      highestBidInv a0 \<and> currentHighestBid a0 = startingBid a0 \<and> bids a0 = [])
   \<and> (highestBidInv a \<longrightarrow>
        highestBidInv (updateAuctionStatus now a)
        \<and> highestBidInv (fst (placeBid a uid amt now))
        \<and> highestBidInv (fst (updateFields a u uid r now))
        \<and> highestBidInv (fst (cancel a uid r now))
        \<and> highestBidInv (fst (settle a uid userRole now))
        \<and> highestBidInv (handle now q a)
        \<and> highestBidInv (run a qs))
   \<and> (placeBids a bs = Some as \<longrightarrow>
        sorted_wrt (<) (currentHighestBid a # map currentHighestBid as)
        \<and> map currentHighestBid as = map (\<lambda>b. fst (snd b)) bs
        \<and> list_all (\<lambda>x. bids x \<noteq> [] \<and> currentHighestBid x = amount (last (bids x))) as)"
  using inv_create[of products auctions requester rr body now0 a0] inv_refresh[of a now]
    inv_placeBid[of a uid amt now] inv_updateFields[of a u uid r now] inv_cancel[of a uid r now]
    inv_settle[of a uid userRole now] inv_handle[of a now q] inv_run[of a qs]
    placeBids_increasing[of a bs as]
  by blast

theorem highestBid_invariant_witness:
  "create sampleProducts [] 10 (Some Seller) sampleBody 4000000 = Inr samplePast
   \<and> highestBidInv samplePast
   \<and> highestBidInv sampleAuction
   \<and> highestBidInv (fst (placeBid sampleAuction 20 101 3480000))
   \<and> highestBidInv (run sampleAuction [(1000, View), (3480000, Bid 20 101), (3600000, Sweep)])
   \<and> placeBids sampleAuction [(20, 101, 3480000), (21, 103, 3700000)]
        = Some [sampleBid1, sampleBid2]
   \<and> sorted_wrt (<) [currentHighestBid sampleAuction, currentHighestBid sampleBid1,
        currentHighestBid sampleBid2]
   \<and> [currentHighestBid sampleBid1, currentHighestBid sampleBid2] = [101, 103]"
proof -
  have c: "create sampleProducts [] 10 (Some Seller) sampleBody 4000000 = Inr samplePast"
    by (rule samplePast_eq(1))
  have i: "highestBidInv sampleAuction"
    by (simp add: highestBidInv_def sampleAuction_def)
  have b: "placeBids sampleAuction [(20, 101, 3480000), (21, 103, 3700000)]
             = Some [sampleBid1, sampleBid2]"
    by (rule sampleBids_eq)
  have s: "currentHighestBid sampleAuction = 100"
    by (simp add: sampleAuction_def)
  from c i b s
    highestBid_invariant[where products = sampleProducts and auctions = "[]" and requester = 10
      and rr = "Some Seller" and body = sampleBody and ?now0.0 = 4000000 and ?a0.0 = samplePast
      and a = sampleAuction and uid = 20 and amt = 101 and now = 3480000
      and qs = "[(1000, View), (3480000, Bid 20 101), (3600000, Sweep)]"
      and bs = "[(20, 101, 3480000), (21, 103, 3700000)]" and as = "[sampleBid1, sampleBid2]"]
  show ?thesis by simp
qed

section \<open>Creation after the end time\<close>

lemma expired_handle:
  assumes "status a = Expired" "bids a = []"
  shows "status (handle now q a) = Expired \<and> bids (handle now q a) = []"
proof -
  have r: "updateAuctionStatus now a = a"
    using assms by (simp add: updateAuctionStatus_terminal terminal_def)
  have m: "status (updateAuctionStatusMiddleware now a) = Expired"
    "bids (updateAuctionStatusMiddleware now a) = []"
    using assms by (simp_all add: middleware_simps r)
  show ?thesis
  proof (cases q)
    case View
    then show ?thesis using m by (simp add: getAuction_def Let_def save_simps)
  next
    case GetBids
    then show ?thesis using m by simp
  next
    case (Bid uid amt)
    then show ?thesis using m by (simp add: placeBid_def Let_def)
  next
    case (Update u uid r)
    then show ?thesis using m
      by (simp add: updateFields_def Let_def save_simps refresh_simps updateAuctionStatus_def
          split: option.splits)
  next
    case (Cancel uid r)
    then show ?thesis using m by (simp add: cancel_def Let_def)
  next
    case (Settle uid r)
    then show ?thesis using m assms
      by (simp add: settle_def processWinner_def split: option.splits)
  next
    case Sweep
    then show ?thesis using assms by (simp add: findActiveAndUpdateStatus_def)
  qed
qed

lemma expired_run:
  "status a = Expired \<Longrightarrow> bids a = [] \<Longrightarrow>
     status (run a qs) = Expired \<and> bids (run a qs) = []"
proof (induction qs arbitrary: a)
  case Nil
  then show ?case by simp
next
  case (Cons q qs)
  obtain now x where q: "q = (now, x)" by (cases q)
  from expired_handle[OF Cons.prems, of now x] Cons.IH[of "handle now x a"]
  show ?case by (simp add: q)
qed

lemma expired_no_bid: "status a = Expired \<Longrightarrow> isl (snd (placeBid a uid amt now))"
  by (simp add: placeBid_def Let_def middleware_simps updateAuctionStatus_def)

lemma create_Inr:
  assumes "create products auctions uid r b now = Inr a"
  shows "create_valid b"
    and "\<exists>p. products (b_product b) = Some p
           \<and> a = save now (updateAuctionStatus now (newAuction p b now))"
  using assms
  by (auto simp: create_def Let_def split: if_splits option.splits)

lemma create_past_end_status:
  assumes "create products auctions uid r b now = Inr a" "b_endTime b \<le> now"
  shows "status a = Expired" "bids a = []" "currentHighestBidder a = None"
proof -
  from create_Inr[OF assms(1)] obtain p where
    v: "create_valid b" and a: "a = save now (updateAuctionStatus now (newAuction p b now))"
    by blast
  from v have st: "b_startTime b < b_endTime b" by (simp add: create_valid_def)
  show "status a = Expired"
    using st assms(2) by (simp add: a save_simps updateAuctionStatus_def newAuction_def)
  show "bids a = []" "currentHighestBidder a = None"
    by (simp_all add: a save_simps refresh_simps newAuction_def)
qed

lemma create_succeeds:
  assumes "authorizeRole (Roles [Seller, Admin]) userRole = None" "create_valid b"
    "products (b_product b) = Some p" "userRole = Some Admin \<or> prod_seller p = uid"
    "find (\<lambda>x. product x = b_product b) auctions = None"
    "1 \<le> stock p" "double_0_01 \<le> b_startingBid b"
  shows "\<exists>a. create products auctions uid userRole b now = Inr a"
proof -
  have f1: "find (\<lambda>x. product x = b_product b
                       \<and> status x \<in> set [Upcoming, Active, Pending]) auctions = None"
    using assms(5) by (auto simp: find_None_iff)
  let ?a = "updateAuctionStatus now (newAuction p b now)"
  have p: "product ?a = b_product b" "startingBid ?a = b_startingBid b"
    by (simp_all add: updateAuctionStatus_def newAuction_def)
  have "create products auctions uid userRole b now = Inr (save now ?a)"
    using assms f1 by (auto simp: create_def Let_def p)
  then show ?thesis by blast
qed

text \<open>
  Claim C10. Creation asks for an end time after the start time, not for an end time
  in the future: it succeeds under conditions that do not read the clock, namely the
  role check, the validation of the body, an existing product of the requester (or an
  admin) with stock, a starting bid of at least the schema's minimum 0.01, and no
  stored auction on the product. Every creation that succeeds with an end time that is
  not after the clock returns an auction whose status is Expired and which has no
  bidder; whatever requests follow, the stored status stays Expired, there are no bids,
  and every bid is rejected.
\<close>

theorem create_past_end_expired:
  "(create products auctions uid userRole b now = Inr a \<and> b_endTime b \<le> now \<longrightarrow>
      status a = Expired \<and> currentHighestBidder a = None
      \<and> (\<forall>qs. status (run a qs) = Expired \<and> bids (run a qs) = [])
      \<and> (\<forall>qs bidder amt t. isl (snd (placeBid (run a qs) bidder amt t))))
   \<and> (authorizeRole (Roles [Seller, Admin]) userRole = None \<and> create_valid b
        \<and> products (b_product b) = Some p \<and> (userRole = Some Admin \<or> prod_seller p = uid)
        \<and> find (\<lambda>x. product x = b_product b) auctions = None
        \<and> 1 \<le> stock p \<and> double_0_01 \<le> b_startingBid b \<longrightarrow>
        (\<exists>a'. create products auctions uid userRole b now = Inr a'))"
proof (rule conjI)
  show "create products auctions uid userRole b now = Inr a \<and> b_endTime b \<le> now \<longrightarrow>
      status a = Expired \<and> currentHighestBidder a = None
      \<and> (\<forall>qs. status (run a qs) = Expired \<and> bids (run a qs) = [])
      \<and> (\<forall>qs bidder amt t. isl (snd (placeBid (run a qs) bidder amt t)))"
  proof
    assume h: "create products auctions uid userRole b now = Inr a \<and> b_endTime b \<le> now"
    then have s: "status a = Expired" "bids a = []" "currentHighestBidder a = None"
      using create_past_end_status[of products auctions uid userRole b now a] by blast+
    have e: "status (run a qs) = Expired \<and> bids (run a qs) = []" for qs
      using expired_run[OF s(1,2)] .
    then have n: "isl (snd (placeBid (run a qs) bidder amt t))" for qs bidder amt t
      using expired_no_bid by blast
    from s e n show "status a = Expired \<and> currentHighestBidder a = None
        \<and> (\<forall>qs. status (run a qs) = Expired \<and> bids (run a qs) = [])
        \<and> (\<forall>qs bidder amt t. isl (snd (placeBid (run a qs) bidder amt t)))"
      by blast
  qed
  show "authorizeRole (Roles [Seller, Admin]) userRole = None \<and> create_valid b
        \<and> products (b_product b) = Some p \<and> (userRole = Some Admin \<or> prod_seller p = uid)
        \<and> find (\<lambda>x. product x = b_product b) auctions = None
        \<and> 1 \<le> stock p \<and> double_0_01 \<le> b_startingBid b \<longrightarrow>
        (\<exists>a'. create products auctions uid userRole b now = Inr a')"
    using create_succeeds[where products = products and b = b and p = p] by blast
qed

theorem create_past_end_expired_witness:
  "authorizeRole (Roles [Seller, Admin]) (Some Seller) = None \<and> create_valid sampleBody
   \<and> sampleProducts (b_product sampleBody) = Some \<lparr> prod_seller = 10, stock = 3 \<rparr>
   \<and> find (\<lambda>x. product x = b_product sampleBody) [] = None
   \<and> double_0_01 \<le> b_startingBid sampleBody
   \<and> b_endTime sampleBody \<le> 4000000
   \<and> create sampleProducts [] 10 (Some Seller) sampleBody 4000000 = Inr samplePast
   \<and> status samplePast = Expired
   \<and> status (run samplePast [(4000001, GetBids), (4000002, Bid 20 500)]) = Expired
   \<and> isl (snd (placeBid samplePast 20 500 4000002))"
proof -
  have h: "authorizeRole (Roles [Seller, Admin]) (Some Seller) = None" "create_valid sampleBody"
    "sampleProducts (b_product sampleBody) = Some \<lparr> prod_seller = 10, stock = 3 \<rparr>"
    "b_endTime sampleBody \<le> 4000000"
    "find (\<lambda>x. product x = b_product sampleBody) [] = None"
    "double_0_01 \<le> b_startingBid sampleBody"
    by (simp_all add: authorizeRole_def create_valid_def sampleBody_def sampleProducts_def
        double_0_01_def)
  have c: "create sampleProducts [] 10 (Some Seller) sampleBody 4000000 = Inr samplePast"
    by (rule samplePast_eq(1))
  from c h(4)
    create_past_end_expired[where products = sampleProducts and auctions = "[]" and uid = 10
      and userRole = "Some Seller" and b = sampleBody and now = 4000000 and a = samplePast]
  have a: "status samplePast = Expired"
    "\<forall>qs. status (run samplePast qs) = Expired \<and> bids (run samplePast qs) = []"
    "\<forall>qs bidder amt t. isl (snd (placeBid (run samplePast qs) bidder amt t))"
    by blast+
  have r: "status (run samplePast [(4000001, GetBids), (4000002, Bid 20 500)]) = Expired"
    using a(2) by blast
  have "isl (snd (placeBid (run samplePast []) 20 500 4000002))"
    using a(3) by blast
  then have s: "isl (snd (placeBid samplePast 20 500 4000002))" by simp
  show ?thesis using h c a(1) r s by blast
qed

section \<open>The winner\<close>

text \<open>
  Creation stores no winner, and no request other than the settlement and the sweep
  writes one.
\<close>

lemma winner_create: "create products auctions uid r b now = Inr a \<Longrightarrow> winner a = None"
  by (auto simp: create_def Let_def newAuction_def save_simps refresh_simps
      split: if_splits option.splits)

lemma winner_handle:
  assumes "winner a = None" "q \<noteq> Sweep" "\<forall>uid r. q \<noteq> Settle uid r"
  shows "winner (handle now q a) = None"
proof (cases q)
  case View
  then show ?thesis using assms by (simp add: getAuction_def Let_def save_simps middleware_simps)
next
  case GetBids
  then show ?thesis using assms by (simp add: middleware_simps)
next
  case (Bid uid amt)
  then show ?thesis using assms by (simp add: placeBid_def Let_def save_simps middleware_simps)
next
  case (Update u uid r)
  then show ?thesis using assms
    by (simp add: updateFields_def Let_def save_simps refresh_simps middleware_simps
        split: option.splits)
next
  case (Cancel uid r)
  then show ?thesis using assms by (simp add: cancel_def Let_def save_simps middleware_simps)
next
  case (Settle uid r)
  then show ?thesis using assms by simp
next
  case Sweep
  then show ?thesis using assms by simp
qed

text \<open>
  Claim C2 reads: the winner is written by the settlement only, and every other
  operation, the sweep in particular, leaves an absent winner absent. The sweep departs
  from it. Run at the end time on the stored Active auction without winner, with one
  bid of 150 by user 20 and reserve price 100, it stores the status Ended and user 20
  as the winner.
\<close>

theorem sweep_writes_winner:
  "winner (sampleWithBid 150) = None
   \<and> status (sampleWithBid 150) = Active
   \<and> winner (hd (findActiveAndUpdateStatus 3600000 [sampleWithBid 150])) = Some 20
   \<and> status (hd (findActiveAndUpdateStatus 3600000 [sampleWithBid 150])) = Ended"
  by (simp add: findActiveAndUpdateStatus_def sweepOne_def eval_defs)

end
